theory Spec2Isabelle
  imports Main
begin

section \<open>The state that \<open>haveServerDataSelectors.js\<close> reads\<close>

text \<open>
  The file imports its types from \<open>./types\<close> and four selectors from
  \<open>./directSelectors\<close>, \<open>./account/accountsSelectors\<close> and
  \<open>./users/userSelectors\<close>. They are modelled from the specification's data
  model (section 3) and consumed interfaces (section 6); the two gates are
  translated from the source file itself.
\<close>

type_synonym UserId = int

text \<open>Modelled from the spec: the type \<open>Auth\<close> of \<open>./types\<close>, the authentication
  credential of a logged-in account (\<open>auth = {token: "t"}\<close> in the scenarios).\<close>

record Auth =
  token :: string

text \<open>Modelled from the spec: the type \<open>User\<close> of \<open>./types\<close>, a user record keyed by
  its identifier (\<open>{id: 7, name: "a"}\<close> and \<open>{id: 7}\<close> in the scenarios).\<close>

record User =
  userId :: UserId
  name :: "string option"

text \<open>Modelled from the spec: the type \<open>RealmState\<close> of \<open>./types\<close>. The source reads
  \<open>state.realm.user_id\<close>, which may be \<open>undefined\<close> (the spec's optional
  \<open>selfUserId\<close>); the rest of the realm metadata is \<open>metadata\<close>.\<close>

record 'r RealmState =
  user_id :: "UserId option"
  metadata :: 'r

text \<open>Modelled from the spec: the type \<open>PerAccountState\<close> of \<open>./types\<close>, the bundle of
  one account: \<open>auth\<close> is absent when the account is not logged in, \<open>users\<close> is
  the ordered collection of user records, and \<open>others\<close> stands for every subtree
  this file never reads (\<open>state.messages\<close>, \<open>state.narrows\<close>, ...).\<close>

record ('r, 'o) PerAccountState =
  auth :: "Auth option"
  users :: "User list"
  realm :: "'r RealmState"
  others :: 'o

text \<open>Modelled from the spec: the type \<open>GlobalState\<close> of \<open>./types\<close>, the
  multi-account store: an optional marker naming the active account, and the
  bundles by account identity. No bundle at all is a valid store.\<close>

record ('k, 'r, 'o) GlobalState =
  active :: "'k option"
  bundles :: "('k \<times> ('r, 'o) PerAccountState) list"

section \<open>The imported selectors\<close>

text \<open>Modelled from the spec: \<open>tryGetAuth\<close> of \<open>./account/accountsSelectors\<close>, the
  accessor for the \<open>auth\<close> field; \<open>None\<close> is JavaScript's \<open>undefined\<close>.\<close>

definition tryGetAuth :: "('r, 'o) PerAccountState \<Rightarrow> Auth option" where
  "tryGetAuth state = auth state"

text \<open>Modelled from the spec: \<open>getUsers\<close> of \<open>./directSelectors\<close>, the accessor for
  the ordered \<open>users\<close> collection.\<close>

definition getUsers :: "('r, 'o) PerAccountState \<Rightarrow> User list" where
  "getUsers state = users state"

text \<open>Modelled from the spec: \<open>getUsersById\<close> of \<open>./users/userSelectors\<close>, the lookup
  from a user identifier to the user record, defined or absent. The application
  \<open>getUsersById state i\<close> is the source's \<open>getUsersById(state).get(i)\<close>. The map is
  filled in the order of the collection, so that of two records with one
  identifier the later one is kept.\<close>

definition getUsersById :: "('r, 'o) PerAccountState \<Rightarrow> (UserId \<rightharpoonup> User)" where
  "getUsersById state = map_of (rev (map (\<lambda>u. (userId u, u)) (getUsers state)))"

text \<open>Modelled from the spec: \<open>tryGetActiveAccountState\<close> of
  \<open>./account/accountsSelectors\<close>, the resolution of the active account (section
  4.1): the bundle marked active, or \<open>None\<close> when the marker is unset or no bundle
  is stored under it (in particular when there is no account at all).\<close>

definition tryGetActiveAccountState ::
    "('k, 'r, 'o) GlobalState \<Rightarrow> ('r, 'o) PerAccountState option" where
  "tryGetActiveAccountState globalState =
     (case active globalState of
        None \<Rightarrow> None
      | Some k \<Rightarrow> map_of (bundles globalState) k)"

section \<open>The two gates\<close>

text \<open>\<open>getHaveServerData\<close>, lines 53 to 175: four checks in the order of the source,
  each with its early \<open>return false\<close>, then \<open>return true\<close>. An \<open>Auth\<close> object and a
  \<open>User\<close> object are truthy, so \<open>!x\<close> holds exactly when \<open>x\<close> is \<open>undefined\<close>.
  The parameter is declared \<open>state: PerAccountState\<close>, not optional, and so is the
  argument here: the call without an active account, of which the comment on
  lines 47 to 52 says that it throws, has no counterpart among the values of
  this type.\<close>

definition getHaveServerData :: "('r, 'o) PerAccountState \<Rightarrow> bool" where
  "getHaveServerData state =
     (if tryGetAuth state = None then False
      else if length (getUsers state) = 0 then False
      else (case user_id (realm state) of
              None \<Rightarrow> False
            | Some ownUserId \<Rightarrow>
                if getUsersById state ownUserId = None then False
                else True))"

text \<open>\<open>getHaveServerDataGlobal\<close>, lines 17 to 40.\<close>

definition getHaveServerDataGlobal :: "('k, 'r, 'o) GlobalState \<Rightarrow> bool" where
  "getHaveServerDataGlobal globalState =
     (case tryGetActiveAccountState globalState of
        None \<Rightarrow> False
      | Some state \<Rightarrow> getHaveServerData state)"

section \<open>The gates as JavaScript calls\<close>





text \<open>The bundles that a call of \<open>getHaveServerDataGlobal\<close> hands to the
  per-account gate. The application on line 39 is the only one in the function,
  and the \<open>return false\<close> of line 35 comes before it.\<close>

definition getHaveServerDataGlobal_calls ::
    "('k, 'r, 'o) GlobalState \<Rightarrow> ('r, 'o) PerAccountState list" where
  "getHaveServerDataGlobal_calls globalState =
     (case tryGetActiveAccountState globalState of
        None \<Rightarrow> []
      | Some state \<Rightarrow> [state])"

section \<open>The scenarios of the specification\<close>

text \<open>\<open>auth = {token: "t"}\<close>, \<open>users = [{id: 7, name: "a"}]\<close>,
  \<open>realm = {selfUserId: 7}\<close>.\<close>

definition bundle_valid :: "(unit, unit) PerAccountState" where
  "bundle_valid =
     \<lparr>auth = Some \<lparr>token = ''t''\<rparr>,
      users = [\<lparr>userId = 7, name = Some ''a''\<rparr>],
      realm = \<lparr>user_id = Some 7, metadata = ()\<rparr>,
      others = ()\<rparr>"

text \<open>\<open>auth = {token: "t"}\<close>, \<open>users = [{id: 7}]\<close>, \<open>realm = {selfUserId: 9}\<close>:
  the torn state after a crash during an account switch.\<close>

definition bundle_torn :: "(unit, unit) PerAccountState" where
  "bundle_torn =
     \<lparr>auth = Some \<lparr>token = ''t''\<rparr>,
      users = [\<lparr>userId = 7, name = None\<rparr>],
      realm = \<lparr>user_id = Some 9, metadata = ()\<rparr>,
      others = ()\<rparr>"


text \<open>\<open>auth = {token: "t"}\<close>, \<open>users = []\<close>, \<open>realm = {selfUserId: undefined}\<close>:
  the users subtree is not yet filled again.\<close>

definition bundle_no_users :: "(unit, unit) PerAccountState" where
  "bundle_no_users =
     \<lparr>auth = Some \<lparr>token = ''t''\<rparr>, users = [],
      realm = \<lparr>user_id = None, metadata = ()\<rparr>, others = ()\<rparr>"

text \<open>A bundle that is logged out while its users and realm subtrees still hold
  the data of the last session.\<close>

definition bundle_logged_out :: "(unit, unit) PerAccountState" where
  "bundle_logged_out = bundle_valid\<lparr>auth := None\<rparr>"


text \<open>Stores, with accounts named by numbers: one with no account at all (even
  though a marker is left over), one with an account and no active marker, and
  two whose active account is account 1.\<close>

definition store_no_accounts :: "(nat, unit, unit) GlobalState" where
  "store_no_accounts = \<lparr>active = Some 1, bundles = []\<rparr>"

definition store_unset_marker :: "(nat, unit, unit) GlobalState" where
  "store_unset_marker = \<lparr>active = None, bundles = [(1, bundle_valid)]\<rparr>"

definition store_active_valid :: "(nat, unit, unit) GlobalState" where
  "store_active_valid = \<lparr>active = Some 1, bundles = [(0, bundle_torn), (1, bundle_valid)]\<rparr>"

definition store_active_torn :: "(nat, unit, unit) GlobalState" where
  "store_active_torn = \<lparr>active = Some 1, bundles = [(0, bundle_valid), (1, bundle_torn)]\<rparr>"

lemmas selector_defs = tryGetAuth_def getUsers_def getUsersById_def

section \<open>Facts about the selectors\<close>

lemma getUsersById_None_iff:
  "getUsersById state i = None \<longleftrightarrow> i \<notin> userId ` set (getUsers state)"
  by (simp add: getUsersById_def map_of_eq_None_iff image_image)

lemma getUsersById_SomeD:
  "getUsersById state i = Some u \<Longrightarrow> userId u = i \<and> u \<in> set (getUsers state)"
  by (auto simp: getUsersById_def dest!: map_of_SomeD)

section \<open>The per-account gate\<close>

text \<open>
  Claim C1. For every bundle, \<open>getHaveServerData\<close> returns true if and only if all
  four conditions hold: the auth credential is present, the users collection is
  not empty, \<open>realm.user_id\<close> is defined, and it is the identifier of some record
  in users.
\<close>

theorem getHaveServerData_iff_four_checks:
  "getHaveServerData state \<longleftrightarrow>
     tryGetAuth state \<noteq> None \<and>
     getUsers state \<noteq> [] \<and>
     (\<exists>ownUserId. user_id (realm state) = Some ownUserId \<and>
        (\<exists>u \<in> set (getUsers state). userId u = ownUserId))"
  by (auto simp: getHaveServerData_def getUsersById_None_iff split: option.splits)

theorem getHaveServerData_iff_four_checks_witness:
  "getHaveServerData bundle_valid \<and>
   tryGetAuth bundle_valid = Some \<lparr>token = ''t''\<rparr> \<and>
   getUsers bundle_valid = [\<lparr>userId = 7, name = Some ''a''\<rparr>] \<and>
   user_id (realm bundle_valid) = Some 7"
  using getHaveServerData_iff_four_checks [of bundle_valid]
  by (simp add: bundle_valid_def tryGetAuth_def getUsers_def)

text \<open>
  Claim C2. For every bundle whose auth credential is absent, \<open>getHaveServerData\<close>
  returns false, whatever the users and realm subtrees hold.
\<close>

theorem getHaveServerData_auth_absent:
  assumes "tryGetAuth state = None"
  shows "getHaveServerData state = False \<and>
         (\<forall>us r. getHaveServerData (state\<lparr>users := us, realm := r\<rparr>) = False)"
  using assms by (simp add: getHaveServerData_def tryGetAuth_def)

theorem getHaveServerData_auth_absent_witness:
  "tryGetAuth bundle_logged_out = None \<and>
   getUsers bundle_logged_out = [\<lparr>userId = 7, name = Some ''a''\<rparr>] \<and>
   user_id (realm bundle_logged_out) = Some 7 \<and>
   getHaveServerData bundle_logged_out = False"
proof -
  have absent: "tryGetAuth bundle_logged_out = None"
    by (simp add: bundle_logged_out_def bundle_valid_def tryGetAuth_def)
  from getHaveServerData_auth_absent [OF absent] absent show ?thesis
    by (simp add: bundle_logged_out_def bundle_valid_def getUsers_def)
qed

text \<open>
  Claim C3. For every bundle with the auth credential present, users not empty and
  \<open>realm.user_id\<close> defined but not the identifier of any record in users,
  \<open>getHaveServerData\<close> returns false; so it does on the bundle
  \<open>auth = {token: "t"}\<close>, \<open>users = [{id: 7}]\<close>, \<open>realm = {selfUserId: 9}\<close>.
\<close>

theorem getHaveServerData_self_not_among_users:
  assumes "tryGetAuth state \<noteq> None"
    and "getUsers state \<noteq> []"
    and "user_id (realm state) = Some ownUserId"
    and "\<forall>u \<in> set (getUsers state). userId u \<noteq> ownUserId"
  shows "getHaveServerData state = False"
proof -
  from assms(4) have "ownUserId \<notin> userId ` set (getUsers state)"
    by auto
  then have "getUsersById state ownUserId = None"
    by (simp add: getUsersById_None_iff)
  with assms(3) show ?thesis
    by (simp add: getHaveServerData_def)
qed

theorem getHaveServerData_self_not_among_users_witness:
  "bundle_torn =
     \<lparr>auth = Some \<lparr>token = ''t''\<rparr>, users = [\<lparr>userId = 7, name = None\<rparr>],
      realm = \<lparr>user_id = Some 9, metadata = ()\<rparr>, others = ()\<rparr> \<and>
   getHaveServerData bundle_torn = False"
proof -
  have present: "tryGetAuth bundle_torn \<noteq> None"
    by (simp add: bundle_torn_def tryGetAuth_def)
  have nonempty: "getUsers bundle_torn \<noteq> []"
    by (simp add: bundle_torn_def getUsers_def)
  have self: "user_id (realm bundle_torn) = Some 9"
    by (simp add: bundle_torn_def)
  have others: "\<forall>u \<in> set (getUsers bundle_torn). userId u \<noteq> 9"
    by (simp add: bundle_torn_def getUsers_def)
  from getHaveServerData_self_not_among_users [OF present nonempty self others]
  show ?thesis
    by (simp add: bundle_torn_def)
qed

text \<open>
  Claim C4. For every bundle with the auth credential present and an empty users
  collection, \<open>getHaveServerData\<close> returns false, whatever the realm subtree holds.
\<close>

theorem getHaveServerData_users_empty:
  assumes "tryGetAuth state \<noteq> None"
    and "getUsers state = []"
  shows "getHaveServerData state = False \<and>
         (\<forall>r. getHaveServerData (state\<lparr>realm := r\<rparr>) = False)"
  using assms by (simp add: getHaveServerData_def tryGetAuth_def getUsers_def)

theorem getHaveServerData_users_empty_witness:
  "tryGetAuth bundle_no_users = Some \<lparr>token = ''t''\<rparr> \<and>
   getUsers bundle_no_users = [] \<and>
   getHaveServerData bundle_no_users = False \<and>
   getHaveServerData (bundle_no_users\<lparr>realm := \<lparr>user_id = Some 7, metadata = ()\<rparr>\<rparr>) = False"
proof -
  have present: "tryGetAuth bundle_no_users \<noteq> None"
    by (simp add: bundle_no_users_def tryGetAuth_def)
  have empty: "getUsers bundle_no_users = []"
    by (simp add: bundle_no_users_def getUsers_def)
  from getHaveServerData_users_empty [OF present empty] empty show ?thesis
    by (simp add: bundle_no_users_def tryGetAuth_def)
qed



text \<open>
  Claim C9. Two bundles that agree on whether the auth credential is present, on
  the users collection and on \<open>realm.user_id\<close> get the same answer from
  \<open>getHaveServerData\<close>. So the answer does not change when another subtree
  changes, when the rest of the realm metadata changes, or when a credential
  that is present is replaced by another one.
\<close>

theorem getHaveServerData_noninterference:
  "((tryGetAuth s = None) = (tryGetAuth t = None) \<and>
    getUsers s = getUsers t \<and>
    user_id (realm s) = user_id (realm t) \<longrightarrow>
      getHaveServerData s = getHaveServerData t) \<and>
   getHaveServerData (s\<lparr>others := x\<rparr>) = getHaveServerData s \<and>
   getHaveServerData (s\<lparr>realm := (realm s)\<lparr>metadata := m\<rparr>\<rparr>) = getHaveServerData s \<and>
   (tryGetAuth s \<noteq> None \<longrightarrow>
      getHaveServerData (s\<lparr>auth := Some a\<rparr>) = getHaveServerData s)"
proof -
  have general: "getHaveServerData s = getHaveServerData t"
    if "(tryGetAuth s = None) = (tryGetAuth t = None)"
      and "getUsers s = getUsers t"
      and "user_id (realm s) = user_id (realm t)"
    using that
    by (simp add: getHaveServerData_def getUsersById_None_iff split: option.splits)
  have other_subtree: "getHaveServerData (s\<lparr>others := x\<rparr>) = getHaveServerData s"
    by (simp add: getHaveServerData_def getUsersById_None_iff tryGetAuth_def getUsers_def
        split: option.splits)
  have realm_rest:
    "getHaveServerData (s\<lparr>realm := (realm s)\<lparr>metadata := m\<rparr>\<rparr>) = getHaveServerData s"
    by (simp add: getHaveServerData_def getUsersById_None_iff tryGetAuth_def getUsers_def
        split: option.splits)
  have credential: "getHaveServerData (s\<lparr>auth := Some a\<rparr>) = getHaveServerData s"
    if "tryGetAuth s \<noteq> None"
    using that
    by (auto simp: getHaveServerData_def getUsersById_None_iff tryGetAuth_def getUsers_def
        split: option.splits)
  show ?thesis
  proof (intro conjI impI)
    assume "(tryGetAuth s = None) = (tryGetAuth t = None) \<and>
      getUsers s = getUsers t \<and> user_id (realm s) = user_id (realm t)"
    then show "getHaveServerData s = getHaveServerData t"
      using general by (elim conjE)
  next
    show "getHaveServerData (s\<lparr>others := x\<rparr>) = getHaveServerData s"
      by (rule other_subtree)
  next
    show "getHaveServerData (s\<lparr>realm := (realm s)\<lparr>metadata := m\<rparr>\<rparr>) = getHaveServerData s"
      by (rule realm_rest)
  next
    assume "tryGetAuth s \<noteq> None"
    then show "getHaveServerData (s\<lparr>auth := Some a\<rparr>) = getHaveServerData s"
      by (rule credential)
  qed
qed

theorem getHaveServerData_noninterference_witness:
  "getHaveServerData
     \<lparr>auth = Some \<lparr>token = ''another token''\<rparr>,
      users = [\<lparr>userId = 7, name = Some ''a''\<rparr>],
      realm = \<lparr>user_id = Some 7, metadata = ''another realm''\<rparr>,
      others = [1, 2, 3 :: nat]\<rparr>
   = getHaveServerData bundle_valid \<and>
   getHaveServerData (bundle_torn\<lparr>others := ()\<rparr>) = getHaveServerData bundle_torn \<and>
   getHaveServerData (bundle_torn\<lparr>auth := Some \<lparr>token = ''u''\<rparr>\<rparr>) = getHaveServerData bundle_torn"
proof -
  let ?t = "\<lparr>auth = Some \<lparr>token = ''another token''\<rparr>,
      users = [\<lparr>userId = 7, name = Some ''a''\<rparr>],
      realm = \<lparr>user_id = Some 7, metadata = ''another realm''\<rparr>,
      others = [1, 2, 3 :: nat]\<rparr>"
  have agree: "(tryGetAuth ?t = None) = (tryGetAuth bundle_valid = None) \<and>
      getUsers ?t = getUsers bundle_valid \<and>
      user_id (realm ?t) = user_id (realm bundle_valid)"
    by (simp add: bundle_valid_def tryGetAuth_def getUsers_def)
  have present: "tryGetAuth bundle_torn \<noteq> None"
    by (simp add: bundle_torn_def tryGetAuth_def)
  have a: "getHaveServerData ?t = getHaveServerData bundle_valid"
    by (rule getHaveServerData_noninterference [THEN conjunct1, THEN mp, OF agree])
  have b: "getHaveServerData (bundle_torn\<lparr>others := ()\<rparr>) = getHaveServerData bundle_torn"
    by (rule getHaveServerData_noninterference
        [of bundle_torn bundle_torn, THEN conjunct2, THEN conjunct1])
  have c: "getHaveServerData (bundle_torn\<lparr>auth := Some \<lparr>token = ''u''\<rparr>\<rparr>) = getHaveServerData bundle_torn"
    by (rule getHaveServerData_noninterference
        [of bundle_torn bundle_torn, THEN conjunct2, THEN conjunct2, THEN conjunct2,
          THEN mp, OF present])
  from a b c show ?thesis by simp
qed

text \<open>
  Claim C10. On every bundle for which \<open>getHaveServerData\<close> returns true,
  \<open>realm.user_id\<close> is defined and looking it up in the users-by-id map yields a
  user record, one of the users collection that carries this identifier; a
  lookup of the self user on that bundle finds it.
\<close>

theorem getHaveServerData_own_user_found:
  assumes "getHaveServerData state"
  shows "\<exists>ownUserId u.
           user_id (realm state) = Some ownUserId \<and>
           getUsersById state ownUserId = Some u \<and>
           userId u = ownUserId \<and>
           u \<in> set (getUsers state)"
proof -
  from assms obtain ownUserId where self: "user_id (realm state) = Some ownUserId"
    by (auto simp: getHaveServerData_def split: if_splits option.splits)
  with assms have "getUsersById state ownUserId \<noteq> None"
    by (auto simp: getHaveServerData_def split: if_splits)
  then obtain u where found: "getUsersById state ownUserId = Some u"
    by auto
  from getUsersById_SomeD [OF found] self found show ?thesis
    by blast
qed

theorem getHaveServerData_own_user_found_witness:
  "getHaveServerData bundle_valid \<and>
   user_id (realm bundle_valid) = Some 7 \<and>
   (\<exists>u. getUsersById bundle_valid 7 = Some u \<and> userId u = 7 \<and>
      u \<in> set (getUsers bundle_valid))"
proof -
  have valid: "getHaveServerData bundle_valid"
    by (simp add: getHaveServerData_def selector_defs bundle_valid_def)
  have self: "user_id (realm bundle_valid) = Some 7"
    by (simp add: bundle_valid_def)
  from getHaveServerData_own_user_found [OF valid] self valid show ?thesis
    by auto
qed

section \<open>The global gate\<close>

text \<open>
  Claim C5. For every store in which the resolution of the active account yields
  no bundle (no account at all, or the active marker unset),
  \<open>getHaveServerDataGlobal\<close> returns false at once: it hands no bundle to the
  per-account gate.
\<close>

theorem getHaveServerDataGlobal_no_active_account:
  assumes "tryGetActiveAccountState globalState = None"
  shows "getHaveServerDataGlobal globalState = False \<and>
         getHaveServerDataGlobal_calls globalState = []"
  using assms
  by (simp add: getHaveServerDataGlobal_def getHaveServerDataGlobal_calls_def)

theorem getHaveServerDataGlobal_no_active_account_witness:
  "tryGetActiveAccountState store_no_accounts = None \<and>
   getHaveServerDataGlobal store_no_accounts = False \<and>
   getHaveServerDataGlobal_calls store_no_accounts = [] \<and>
   tryGetActiveAccountState store_unset_marker = None \<and>
   getHaveServerDataGlobal store_unset_marker = False \<and>
   getHaveServerDataGlobal_calls store_unset_marker = []"
proof -
  have none_a: "tryGetActiveAccountState store_no_accounts = None"
    by (simp add: store_no_accounts_def tryGetActiveAccountState_def)
  have none_b: "tryGetActiveAccountState store_unset_marker = None"
    by (simp add: store_unset_marker_def tryGetActiveAccountState_def)
  from getHaveServerDataGlobal_no_active_account [OF none_a]
    getHaveServerDataGlobal_no_active_account [OF none_b] none_a none_b
  show ?thesis by simp
qed

text \<open>
  Claim C6. For every store whose active-account resolution yields a bundle,
  \<open>getHaveServerDataGlobal\<close> returns exactly what \<open>getHaveServerData\<close> returns on
  that bundle, which is the one bundle it hands to the per-account gate.
\<close>

theorem getHaveServerDataGlobal_delegates:
  assumes "tryGetActiveAccountState globalState = Some state"
  shows "getHaveServerDataGlobal globalState = getHaveServerData state \<and>
         getHaveServerDataGlobal_calls globalState = [state]"
  using assms
  by (simp add: getHaveServerDataGlobal_def getHaveServerDataGlobal_calls_def)

theorem getHaveServerDataGlobal_delegates_witness:
  "tryGetActiveAccountState store_active_valid = Some bundle_valid \<and>
   getHaveServerDataGlobal store_active_valid = getHaveServerData bundle_valid \<and>
   getHaveServerDataGlobal store_active_valid = True \<and>
   tryGetActiveAccountState store_active_torn = Some bundle_torn \<and>
   getHaveServerDataGlobal store_active_torn = getHaveServerData bundle_torn \<and>
   getHaveServerDataGlobal store_active_torn = False"
proof -
  have some_a: "tryGetActiveAccountState store_active_valid = Some bundle_valid"
    by (simp add: store_active_valid_def tryGetActiveAccountState_def)
  have some_b: "tryGetActiveAccountState store_active_torn = Some bundle_torn"
    by (simp add: store_active_torn_def tryGetActiveAccountState_def)
  have valid: "getHaveServerData bundle_valid = True"
    by (simp add: getHaveServerData_def selector_defs bundle_valid_def)
  have torn: "getHaveServerData bundle_torn = False"
    by (simp add: getHaveServerData_def selector_defs bundle_torn_def)
  from getHaveServerDataGlobal_delegates [OF some_a]
    getHaveServerDataGlobal_delegates [OF some_b] some_a some_b valid torn
  show ?thesis by simp
qed

end
